theory Spec2Isabelle
  imports Complex_Main "HOL-Library.Char_ord" "HOL-Library.List_Lexorder" "HOL-Library.Sublist"
begin

text \<open>
  A model of the evaluation framework (\<^verbatim>\<open>src/evaluation_framework\<close>): answer preparation
  and context building, the three providers (cluster, Gemini batch, OpenAI batch) with
  their request chunking, correlation keys and result reconciliation, the results file,
  and the merge of two binary runs. The sections up to the merge define the functions as
  the sources write them; the sections named \<open>Properties\<close> prove what holds of them.
  File reads, the remote batch services, the model engine and the constants of
  \<^verbatim>\<open>utils/prompts.py\<close> are parameters.
\<close>

section \<open>Errors raised by the evaluation framework\<close>

text \<open>
  Every \<^verbatim>\<open>raise\<close> site of the modelled functions, and every built-in exception they can
  trigger, is one constructor. The three \<^verbatim>\<open>ValueError\<close>s of \<^verbatim>\<open>get_batch_results\<close> are
  told apart by their message; \<open>UnpackError\<close> is the \<^verbatim>\<open>ValueError\<close> of a tuple assignment
  whose right-hand side has the wrong number of values.
\<close>

datatype error =
    NoBatchJobs
  | JobNotReady string string
  | NoOutputFile string
  | UnpackError nat
  | UnsupportedMode
  | SameDirectoryError
  | MissingPair
  | TypeError
  | IndexError
  | AttributeError
  | NameError
  | ValueNotInList
  | KeyError
  | FileNotFoundError string

section \<open>Chunker: \<^verbatim>\<open>_split_batch_requests\<close> (gemini\_batch.py, openai\_batch.py)\<close>

text \<open>
  Both batch providers carry the same three methods. A request is an arbitrary value
  \<open>'r\<close>; \<open>json_len\<close> stands for \<^verbatim>\<open>len(json.dumps(request).encode("utf-8"))\<close>, the byte
  length of its serialisation. The sizes are Python floats \<open>n / 2\<^sup>2\<^sup>0\<close>; such values and
  their sums are exact in binary64 as long as the byte total stays below \<open>2\<^sup>5\<^sup>3\<close>, and
  the budget is a finite float, so all of them are modelled by rationals.
\<close>

definition estimate_request_size_mb :: "('r \<Rightarrow> nat) \<Rightarrow> 'r \<Rightarrow> rat" where
  "estimate_request_size_mb json_len request = of_nat (json_len request) / (1024 * 1024)"

definition estimate_total_size_mb :: "('r \<Rightarrow> nat) \<Rightarrow> 'r list \<Rightarrow> rat" where
  "estimate_total_size_mb json_len requests =
     fold (\<lambda>request total_size. total_size + estimate_request_size_mb json_len request)
       requests 0"

text \<open>
  The \<^verbatim>\<open>for request in requests\<close> loop, with its three loop variables \<^verbatim>\<open>batches\<close>,
  \<^verbatim>\<open>current_batch\<close> and \<^verbatim>\<open>current_size_mb\<close> as accumulators.
\<close>

fun split_loop ::
  "('r \<Rightarrow> nat) \<Rightarrow> rat \<Rightarrow> 'r list \<Rightarrow> 'r list list \<Rightarrow> 'r list \<Rightarrow> rat
     \<Rightarrow> 'r list list \<times> 'r list \<times> rat" where
  "split_loop json_len max_batch_size_mb [] batches current_batch current_size_mb =
     (batches, current_batch, current_size_mb)"
| "split_loop json_len max_batch_size_mb (request # requests) batches current_batch
       current_size_mb =
     (let request_size_mb = estimate_request_size_mb json_len request in
      if current_batch \<noteq> [] \<and> current_size_mb + request_size_mb > max_batch_size_mb
      then split_loop json_len max_batch_size_mb requests
             (batches @ [current_batch]) [request] request_size_mb
      else split_loop json_len max_batch_size_mb requests
             batches (current_batch @ [request]) (current_size_mb + request_size_mb))"

definition split_batch_requests :: "('r \<Rightarrow> nat) \<Rightarrow> rat \<Rightarrow> 'r list \<Rightarrow> 'r list list" where
  "split_batch_requests json_len max_batch_size_mb requests =
     (case split_loop json_len max_batch_size_mb requests [] [] 0 of
        (batches, current_batch, current_size_mb) \<Rightarrow>
          if current_batch \<noteq> [] then batches @ [current_batch] else batches)"

section \<open>Python string primitives\<close>

text \<open>
  Strings are byte strings; the model is exact on ASCII text. \<open>py_replace a b\<close> is
  \<^verbatim>\<open>s.replace(a, b)\<close> and \<open>py_split sep\<close> is \<^verbatim>\<open>s.split(sep)\<close>, both for one-character
  arguments, which is how the sources call them. \<open>py_strip chars\<close> is \<^verbatim>\<open>s.strip(chars)\<close>,
  \<open>py_upper\<close> is \<^verbatim>\<open>s.upper()\<close> on ASCII letters (bytes outside a-z are kept), \<open>str_nat\<close> and
  \<open>str_bool\<close> are \<^verbatim>\<open>str()\<close> as the f-strings apply it to an \<^verbatim>\<open>enumerate\<close> index and to a
  \<^verbatim>\<open>bool\<close>, \<open>py_contains sub s\<close> is \<^verbatim>\<open>sub in s\<close>, and \<open>truthy\<close> is the truth value of an
  optional string (\<^verbatim>\<open>None\<close> and \<^verbatim>\<open>""\<close> are false).
\<close>

definition py_replace :: "char \<Rightarrow> char \<Rightarrow> string \<Rightarrow> string" where
  "py_replace a b s = map (\<lambda>c. if c = a then b else c) s"

fun py_split :: "char \<Rightarrow> string \<Rightarrow> string list" where
  "py_split sep [] = [[]]"
| "py_split sep (c # cs) =
     (if c = sep then [] # py_split sep cs
      else (case py_split sep cs of
              [] \<Rightarrow> [[c]]
            | part # parts \<Rightarrow> (c # part) # parts))"

definition py_strip :: "string \<Rightarrow> string \<Rightarrow> string" where
  "py_strip chars s =
     rev (dropWhile (\<lambda>c. c \<in> set chars) (rev (dropWhile (\<lambda>c. c \<in> set chars) s)))"

definition upper_char :: "char \<Rightarrow> char" where
  "upper_char c =
     (if (97::nat) \<le> of_char c \<and> of_char c \<le> (122::nat)
      then char_of (of_char c - (32::nat)) else c)"

definition py_upper :: "string \<Rightarrow> string" where
  "py_upper s = map upper_char s"

definition digit_char :: "nat \<Rightarrow> char" where
  "digit_char d = char_of (48 + d)"

fun str_nat :: "nat \<Rightarrow> string" where
  "str_nat n = (if n < 10 then [digit_char n] else str_nat (n div 10) @ [digit_char (n mod 10)])"

declare str_nat.simps [simp del]

definition str_bool :: "bool \<Rightarrow> string" where
  "str_bool b = (if b then ''True'' else ''False'')"

definition str_opt :: "string option \<Rightarrow> string" where
  "str_opt v = (case v of None \<Rightarrow> ''None'' | Some s \<Rightarrow> s)"

definition py_contains :: "string \<Rightarrow> string \<Rightarrow> bool" where
  "py_contains sub s = sublist sub s"


text \<open>\<^verbatim>\<open>os.path.join(a, b)\<close> and \<^verbatim>\<open>os.path.dirname(p)\<close> of \<^verbatim>\<open>posixpath\<close>.\<close>

definition path_join :: "string \<Rightarrow> string \<Rightarrow> string" where
  "path_join a b =
     (if b \<noteq> [] \<and> hd b = CHR ''/'' then b
      else if a = [] \<or> last a = CHR ''/'' then a @ b
      else a @ ''/'' @ b)"

definition rstrip_slash :: "string \<Rightarrow> string" where
  "rstrip_slash s = rev (dropWhile (\<lambda>c. c = CHR ''/'') (rev s))"

definition dirname :: "string \<Rightarrow> string" where
  "dirname p =
     (let head = rev (dropWhile (\<lambda>c. c \<noteq> CHR ''/'') (rev p)) in
      if head \<noteq> [] \<and> head \<noteq> replicate (length head) CHR ''/''
      then rstrip_slash head else head)"

text \<open>The process environment, read through \<^verbatim>\<open>os.getenv(name, default)\<close>.\<close>

record environ =
  IMAGE_DIR :: "string option"
  SUPPL_IMAGE_DIR :: "string option"
  RESULTS_DIR :: "string option"

definition getenv :: "string option \<Rightarrow> string \<Rightarrow> string" where
  "getenv var dflt = (case var of None \<Rightarrow> dflt | Some v \<Rightarrow> v)"

section \<open>Annotation data (types.py)\<close>

text \<open>
  The pydantic models, as the values that validation hands over. The field
  \<^verbatim>\<open>MCQ.part_pair\<close> has type \<^verbatim>\<open>Union[MCQItem, dict]\<close> with default \<^verbatim>\<open>{}\<close>: it holds an item,
  the empty dictionary, or some other dictionary (which is true in a condition and has no
  attribute \<^verbatim>\<open>question\<close>). The field \<^verbatim>\<open>MCQ.default\<close> is named \<open>default_mcq\<close> here.
\<close>

datatype inconsistency_part =
    ImageInconsistencyPart (part_page: nat) (part_image_id: string)
  | TextInconsistencyPart (part_page: nat) (part_content: string) (part_line: nat)

record mcq_item =
  question :: string
  correct :: string
  incorrect :: "string list"
  letters :: "string list"

datatype part_pair_value = PairItem mcq_item | EmptyDict | OtherDict

record mcq =
  default_mcq :: mcq_item
  binary_consistent :: mcq_item
  binary_inconsistent :: mcq_item
  edit :: mcq_item
  default_natural :: mcq_item
  part_pair :: part_pair_value

record annotation_entry =
  inconsistency_parts :: "inconsistency_part list"
  review_text :: string
  category :: string
  description :: string
  mcq_of :: mcq

text \<open>
  \<^verbatim>\<open>getattr(annotation.mcq, question_type)\<close>: the item, \<open>None\<close> when the attribute is a
  dictionary, or \<^verbatim>\<open>AttributeError\<close>.
\<close>

definition getattr_mcq :: "mcq \<Rightarrow> string \<Rightarrow> error + mcq_item option" where
  "getattr_mcq m question_type =
     (if question_type = ''default'' then Inr (Some (default_mcq m))
      else if question_type = ''binary_consistent'' then Inr (Some (binary_consistent m))
      else if question_type = ''binary_inconsistent'' then Inr (Some (binary_inconsistent m))
      else if question_type = ''edit'' then Inr (Some (edit m))
      else if question_type = ''default_natural'' then Inr (Some (default_natural m))
      else if question_type = ''part_pair''
      then Inr (case part_pair m of PairItem item \<Rightarrow> Some item | _ \<Rightarrow> None)
      else Inl AttributeError)"

section \<open>Answer preparation (helpers.py)\<close>

text \<open>
  \<^verbatim>\<open>dict(zip(letters, answers))\<close>: a later pair overrides an earlier one with the same
  letter, so the lookup reads the reversed pair list; the keys are the letters that got an
  answer, each once. \<^verbatim>\<open>sorted\<close> compares strings lexicographically by character code.
\<close>

definition letter_to_answer :: "string list \<Rightarrow> string list \<Rightarrow> string \<Rightarrow> string option" where
  "letter_to_answer ls answers = map_of (rev (zip ls answers))"

definition sorted_letters :: "string list \<Rightarrow> string list \<Rightarrow> string list" where
  "sorted_letters ls answers = sort (remdups (map fst (zip ls answers)))"

definition prepare_answers :: "mcq_item \<Rightarrow> string \<Rightarrow> error + (string list \<times> string)" where
  "prepare_answers m question_type =
     (let answers = correct m # incorrect m;
          lookup = letter_to_answer (letters m) answers;
          sorted_ls = sorted_letters (letters m) answers;
          answer_options =
            (if py_contains ''binary'' question_type
             then map (\<lambda>letter. letter @ '') '' @ the (lookup letter)) sorted_ls
             else map (\<lambda>letter. the (lookup letter)) sorted_ls)
      in case letters m of
           [] \<Rightarrow> Inl IndexError
         | correct_letter # _ \<Rightarrow> Inr (answer_options, correct_letter))"

section \<open>Context builders (base.py)\<close>

text \<open>
  A generic item is \<^verbatim>\<open>{"kind": "text", "text": s}\<close> or \<^verbatim>\<open>{"kind": "image", "base64": b}\<close>,
  where \<open>b\<close> is \<^verbatim>\<open>None\<close> when the image could not be read. The list returned by
  \<^verbatim>\<open>get_list_of_context\<close>, which reads images and renders PDF pages, is the parameter
  \<open>parts\<close>; \<open>after_question_prompt\<close> is a constant of \<^verbatim>\<open>utils/prompts.py\<close>;
  \<open>convert_image_to_base64\<close> reads a file.
\<close>

datatype generic_item = TextItem string | ImageItem "string option"

datatype context_part = ImageContent "string option" | TextContent string

fun part_to_item :: "context_part \<Rightarrow> generic_item" where
  "part_to_item (ImageContent c) = ImageItem c"
| "part_to_item (TextContent c) = TextItem c"

definition build_default_context ::
  "string \<Rightarrow> context_part list \<Rightarrow> annotation_entry \<Rightarrow> string
     \<Rightarrow> error + (generic_item list \<times> string \<times> string list \<times> string)" where
  "build_default_context after_question_prompt parts annotation question_type =
     (case getattr_mcq (mcq_of annotation) question_type of
        Inl e \<Rightarrow> Inl e
      | Inr None \<Rightarrow> Inl AttributeError
      | Inr (Some mcq_item) \<Rightarrow>
          (case prepare_answers mcq_item question_type of
             Inl e \<Rightarrow> Inl e
           | Inr (answers, correct_letter) \<Rightarrow>
               Inr (map part_to_item parts @ [TextItem (question mcq_item)]
                      @ map TextItem answers @ [TextItem after_question_prompt],
                    question mcq_item, answers, correct_letter)))"

definition build_without_context ::
  "string \<Rightarrow> annotation_entry \<Rightarrow> string
     \<Rightarrow> error + (generic_item list \<times> string \<times> string list \<times> string)" where
  "build_without_context after_question_prompt annotation question_type =
     (case getattr_mcq (mcq_of annotation) question_type of
        Inl e \<Rightarrow> Inl e
      | Inr None \<Rightarrow> Inl AttributeError
      | Inr (Some mcq_item) \<Rightarrow>
          (case prepare_answers mcq_item question_type of
             Inl e \<Rightarrow> Inl e
           | Inr (answers, correct_letter) \<Rightarrow>
               Inr ([TextItem (question mcq_item)] @ map TextItem answers
                      @ [TextItem after_question_prompt],
                    question mcq_item, answers, correct_letter)))"

text \<open>\<^verbatim>\<open>xs.index(x)\<close>: the first position of \<open>x\<close>, or \<^verbatim>\<open>ValueError\<close>.\<close>

definition py_index :: "'a list \<Rightarrow> 'a \<Rightarrow> error + nat" where
  "py_index xs x =
     (if x \<in> set xs then Inr (length (takeWhile (\<lambda>y. y \<noteq> x) xs)) else Inl ValueNotInList)"

text \<open>One round of the loop over the answer options of a part-pair question.\<close>

definition part_pair_option_items ::
  "(string \<Rightarrow> string option) \<Rightarrow> environ \<Rightarrow> string \<times> string \<Rightarrow> generic_item list" where
  "part_pair_option_items convert_image_to_base64 env opt =
     (case opt of (letter, image_id) \<Rightarrow>
        [TextItem (letter @ '')''),
         ImageItem (convert_image_to_base64
           (if length (py_split CHR ''_'' image_id) < 4
            then path_join (getenv (IMAGE_DIR env) ''images'') (image_id @ ''.png'')
            else path_join (getenv (SUPPL_IMAGE_DIR env) ''suppl_images'')
                   (image_id @ ''.png'')))])"

definition build_part_pair_context ::
  "string \<Rightarrow> (string \<Rightarrow> string option) \<Rightarrow> environ \<Rightarrow> annotation_entry \<Rightarrow> string
     \<Rightarrow> error + (generic_item list \<times> string)" where
  "build_part_pair_context after_question_prompt convert_image_to_base64 env annotation ident =
     (case part_pair (mcq_of annotation) of
        EmptyDict \<Rightarrow> Inr ([], [])
      | OtherDict \<Rightarrow> Inl AttributeError
      | PairItem mcq_item \<Rightarrow>
          if question mcq_item = [] \<or> correct mcq_item = [] then Inr ([], [])
          else
            (let answers = correct mcq_item # incorrect mcq_item;
                 lookup = letter_to_answer (letters mcq_item) answers;
                 sorted_ls = sorted_letters (letters mcq_item) answers;
                 answer_options = map (\<lambda>letter_key. the (lookup letter_key)) sorted_ls
             in case py_index answer_options (correct mcq_item) of
                  Inl e \<Rightarrow> Inl e
                | Inr i \<Rightarrow>
                    Inr ([TextItem ''You are provided with a part of a scientific paper:'',
                          (if py_contains ident (question mcq_item)
                           then ImageItem (convert_image_to_base64
                                  (path_join (getenv (IMAGE_DIR env) ''images'')
                                     (question mcq_item @ ''.png'')))
                           else TextItem (question mcq_item)),
                          TextItem (''The combination with one of the other parts within ''
                            @ ''the same paper results in an inconsistency. Pick the ''
                            @ ''letter of the correct answer option.'')]
                         @ concat (map (part_pair_option_items convert_image_to_base64 env)
                                     (zip sorted_ls answer_options))
                         @ [TextItem after_question_prompt],
                         sorted_ls ! i)))"

section \<open>Results and their file (base.py)\<close>

text \<open>
  One entry of \<^verbatim>\<open>self.responses\<close>, which is also one object of a results file. The cluster
  provider stores the \<^verbatim>\<open>enumerate\<close> index and no question type; the batch providers store
  the index as the string cut from the correlation key, and a prediction that may be
  \<^verbatim>\<open>None\<close>. A file system maps a path to the result list that \<^verbatim>\<open>json.load\<close> reads there.
\<close>

datatype idx_value = IdxInt int | IdxStr string

record response =
  r_id :: string
  r_idx :: idx_value
  r_question_type :: "string option"
  r_correct_letter :: string
  r_prediction :: "string option"
  r_is_correct :: bool

type_synonym file_system = "string \<Rightarrow> response list option"

definition results_file ::
  "environ \<Rightarrow> string \<Rightarrow> string \<Rightarrow> bool \<Rightarrow> bool \<Rightarrow> bool \<Rightarrow> string" where
  "results_file env model_id question_type whole_page whole_doc without_context =
     path_join (getenv (RESULTS_DIR env) ''results'')
       (py_replace CHR ''_'' CHR ''-'' (py_replace CHR ''/'' CHR ''-'' model_id)
        @ ''_'' @ py_replace CHR ''_'' CHR ''-'' question_type
        @ (if whole_page then ''_fullpage'' else [])
        @ (if whole_doc then ''_wholedoc'' else [])
        @ (if without_context then ''_without_context'' else [])
        @ ''.json'')"

definition write_results ::
  "environ \<Rightarrow> response list \<Rightarrow> string \<Rightarrow> string \<Rightarrow> bool \<Rightarrow> bool \<Rightarrow> bool
     \<Rightarrow> file_system \<Rightarrow> string \<times> file_system" where
  "write_results env responses model_id question_type whole_page whole_doc without_context fs =
     (let path = results_file env model_id question_type whole_page whole_doc without_context
      in (path, fs(path \<mapsto> responses)))"

text \<open>\<^verbatim>\<open>iter_annotations\<close> over the items of the loaded annotation file, in order.\<close>

definition iter_annotations ::
  "(string \<times> annotation_entry list) list \<Rightarrow> string
     \<Rightarrow> (string \<times> nat \<times> annotation_entry) list" where
  "iter_annotations data question_type =
     concat (map (\<lambda>(k, entries).
       map (\<lambda>(idx, ann). (k, idx, ann))
         (filter (\<lambda>(idx, ann).
            \<not> (question_type = ''part_pair'' \<and> part_pair (mcq_of ann) = EmptyDict))
            (enumerate 0 entries))) data)"

section \<open>Correlation keys and prediction normalisation (gemini\_batch.py, openai\_batch.py)\<close>

text \<open>
  The f-string that every batch handler builds:
  \<^verbatim>\<open>f"{id}_{idx}_{question_type.replace('_', '-')}_{correct_letter}_{whole_page}_{whole_doc}_{without_context}"\<close>.
\<close>

definition custom_id_of ::
  "string \<Rightarrow> nat \<Rightarrow> string \<Rightarrow> string \<Rightarrow> bool \<Rightarrow> bool \<Rightarrow> bool \<Rightarrow> string" where
  "custom_id_of ident idx question_type correct_letter whole_page whole_doc without_context =
     ident @ ''_'' @ str_nat idx @ ''_'' @ py_replace CHR ''_'' CHR ''-'' question_type
       @ ''_'' @ correct_letter @ ''_'' @ str_bool whole_page @ ''_'' @ str_bool whole_doc
       @ ''_'' @ str_bool without_context"




text \<open>
  \<^verbatim>\<open>text.strip("'.\" )").upper()\<close>: the argument of \<^verbatim>\<open>strip\<close> is the five characters
  apostrophe, full stop, double quote, space and closing parenthesis.
\<close>

definition strip_chars :: string where
  "strip_chars = [CHR 0x27, CHR ''.'', CHR 0x22, CHR '' '', CHR '')'']"

definition normalize_prediction :: "string \<Rightarrow> string" where
  "normalize_prediction t = py_upper (py_strip strip_chars t)"










section \<open>Request handlers of the batch providers\<close>

text \<open>
  What the handlers take from outside: the environment, the two constants of
  \<^verbatim>\<open>utils/prompts.py\<close>, \<^verbatim>\<open>get_list_of_context\<close> (annotation, id, whole\_page, whole\_doc) and
  \<^verbatim>\<open>convert_image_to_base64\<close>.
\<close>

record deps =
  d_env :: environ
  d_after_question_prompt :: string
  d_system_prompt :: string
  d_get_list_of_context :: "annotation_entry \<Rightarrow> string \<Rightarrow> bool \<Rightarrow> bool \<Rightarrow> context_part list"
  d_convert_image_to_base64 :: "string \<Rightarrow> string option"

text \<open>
  The wire formats. A Gemini request is \<^verbatim>\<open>{"key", "request": {"contents": [{"parts",
  "role": "user"}], "system_instruction", "generation_config"}}\<close>; an OpenAI request is
  \<^verbatim>\<open>{"custom_id", "method": "POST", "url": "/v1/responses", "body": {"model", "input",
  "reasoning"}}\<close>. The constant fields are left out of the records.
\<close>

datatype gemini_part = InlineData "string option" | GeminiText string

record gemini_request =
  gq_key :: string
  gq_parts :: "gemini_part list"
  gq_system_instruction :: string

datatype openai_input = InputImage string | InputText string

record openai_request =
  oq_custom_id :: string
  oq_model :: string
  oq_system :: string
  oq_user_content :: "openai_input list"
  oq_reasoning_effort :: string

definition gemini_encode :: "deps \<Rightarrow> string \<Rightarrow> generic_item list \<Rightarrow> gemini_request" where
  "gemini_encode d custom_id context_items =
     \<lparr>gq_key = custom_id,
      gq_parts = map (\<lambda>item. case item of ImageItem b \<Rightarrow> InlineData b
                                  | TextItem t \<Rightarrow> GeminiText t) context_items,
      gq_system_instruction = d_system_prompt d\<rparr>"

definition openai_encode ::
  "deps \<Rightarrow> string \<Rightarrow> string \<Rightarrow> string \<Rightarrow> generic_item list \<Rightarrow> openai_request" where
  "openai_encode d model effort custom_id context_items =
     \<lparr>oq_custom_id = custom_id, oq_model = model, oq_system = d_system_prompt d,
      oq_user_content =
        map (\<lambda>item. case item of
                      ImageItem b \<Rightarrow> InputImage (''data:image/jpeg;base64,'' @ str_opt b)
                    | TextItem t \<Rightarrow> InputText t) context_items,
      oq_reasoning_effort = effort\<rparr>"

text \<open>
  The three handlers are the same text in both batch providers up to the wire format
  \<open>encode\<close>; each returns \<^verbatim>\<open>self.batch_requests\<close> after the call.
\<close>

definition batch_handle_one_annotation ::
  "deps \<Rightarrow> (string \<Rightarrow> generic_item list \<Rightarrow> 'req) \<Rightarrow> 'req list \<Rightarrow> string \<Rightarrow> nat
     \<Rightarrow> annotation_entry \<Rightarrow> string \<Rightarrow> bool \<Rightarrow> bool \<Rightarrow> bool \<Rightarrow> error + 'req list" where
  "batch_handle_one_annotation d encode batch_requests ident idx annotation question_type
       whole_page whole_doc without_context =
     (case build_default_context (d_after_question_prompt d)
             (d_get_list_of_context d annotation ident whole_page whole_doc)
             annotation question_type of
        Inl e \<Rightarrow> Inl e
      | Inr (context_items, q, answers, correct_letter) \<Rightarrow>
          Inr (batch_requests @
                 [encode (custom_id_of ident idx question_type correct_letter
                            whole_page whole_doc without_context) context_items]))"

definition batch_handle_one_annotation_without_context ::
  "deps \<Rightarrow> (string \<Rightarrow> generic_item list \<Rightarrow> 'req) \<Rightarrow> 'req list \<Rightarrow> string \<Rightarrow> nat
     \<Rightarrow> annotation_entry \<Rightarrow> string \<Rightarrow> bool \<Rightarrow> bool \<Rightarrow> bool \<Rightarrow> error + 'req list" where
  "batch_handle_one_annotation_without_context d encode batch_requests ident idx annotation
       question_type whole_page whole_doc without_context =
     (case build_without_context (d_after_question_prompt d) annotation question_type of
        Inl e \<Rightarrow> Inl e
      | Inr (context_items, q, answers, correct_letter) \<Rightarrow>
          Inr (batch_requests @
                 [encode (custom_id_of ident idx question_type correct_letter
                            whole_page whole_doc without_context) context_items]))"

definition batch_handle_one_part_pair_annotation ::
  "deps \<Rightarrow> (string \<Rightarrow> generic_item list \<Rightarrow> 'req) \<Rightarrow> 'req list \<Rightarrow> string \<Rightarrow> nat
     \<Rightarrow> annotation_entry \<Rightarrow> string \<Rightarrow> bool \<Rightarrow> bool \<Rightarrow> bool \<Rightarrow> error + 'req list" where
  "batch_handle_one_part_pair_annotation d encode batch_requests ident idx annotation
       question_type whole_page whole_doc without_context =
     (case build_part_pair_context (d_after_question_prompt d) (d_convert_image_to_base64 d)
             (d_env d) annotation ident of
        Inl e \<Rightarrow> Inl e
      | Inr (context_items, correct_letter) \<Rightarrow>
          if context_items = [] then Inr batch_requests
          else Inr (batch_requests @
                      [encode (custom_id_of ident idx question_type correct_letter
                                 whole_page whole_doc without_context) context_items]))"

text \<open>The dispatch loop of \<^verbatim>\<open>run_mcq_inference\<close> in the batch providers.\<close>

fun batch_run_loop ::
  "deps \<Rightarrow> (string \<Rightarrow> generic_item list \<Rightarrow> 'req) \<Rightarrow> (string \<times> nat \<times> annotation_entry) list
     \<Rightarrow> string \<Rightarrow> bool \<Rightarrow> bool \<Rightarrow> bool \<Rightarrow> 'req list \<Rightarrow> error + 'req list" where
  "batch_run_loop d encode [] question_type whole_page whole_doc without_context
       batch_requests = Inr batch_requests"
| "batch_run_loop d encode (entry # entries) question_type whole_page whole_doc
       without_context batch_requests =
     (case entry of (k, idx, ann) \<Rightarrow>
        (case (if without_context
               then batch_handle_one_annotation_without_context d encode batch_requests
                      k idx ann question_type whole_page whole_doc without_context
               else if question_type = ''part_pair''
               then batch_handle_one_part_pair_annotation d encode batch_requests
                      k idx ann question_type whole_page whole_doc without_context
               else batch_handle_one_annotation d encode batch_requests
                      k idx ann question_type whole_page whole_doc without_context) of
           Inl e \<Rightarrow> Inl e
         | Inr batch_requests' \<Rightarrow>
             batch_run_loop d encode entries question_type whole_page whole_doc
               without_context batch_requests'))"

section \<open>Fetching batch results (\<^verbatim>\<open>get_batch_results\<close>)\<close>



record 'req provider =
  p_model :: string
  p_batch_requests :: "'req list"
  p_max_batch_size_mb :: rat
  p_batch_jobs :: "(string \<times> string) list"
  p_file_name :: "string option"
  p_batch_name :: "string option"
  p_responses :: "response list"








section \<open>Running an inference (\<^verbatim>\<open>run_mcq_inference\<close>)\<close>

text \<open>
  The batch providers: the flags are forced off for part-pair questions, the loop fills
  \<^verbatim>\<open>self.batch_requests\<close> (which is not reset), the requests are split and one job is
  created per chunk by \<open>create_batch\<close> (\<^verbatim>\<open>_create_batch_from_requests\<close>: upload and job
  creation, numbered from 1), and the first job becomes the primary one.
\<close>

definition batch_run_mcq_inference ::
  "deps \<Rightarrow> (string \<Rightarrow> generic_item list \<Rightarrow> 'req) \<Rightarrow> ('req \<Rightarrow> nat)
     \<Rightarrow> ('req list \<Rightarrow> string \<Rightarrow> nat \<Rightarrow> string \<times> string) \<Rightarrow> (string \<times> annotation_entry list) list
     \<Rightarrow> 'req provider \<Rightarrow> string \<Rightarrow> bool \<Rightarrow> bool \<Rightarrow> bool \<Rightarrow> error + 'req provider" where
  "batch_run_mcq_inference d encode json_len create_batch data st question_type whole_page
       whole_doc without_context =
     (let whole_page' = (whole_page \<and> question_type \<noteq> ''part_pair'');
          whole_doc' = (whole_doc \<and> question_type \<noteq> ''part_pair'')
      in case batch_run_loop d encode (iter_annotations data question_type) question_type
                whole_page' whole_doc' without_context (p_batch_requests st) of
           Inl e \<Rightarrow> Inl e
         | Inr batch_requests \<Rightarrow>
             (let batch_splits =
                    split_batch_requests json_len (p_max_batch_size_mb st) batch_requests;
                  batch_jobs = map (\<lambda>(i, batch). create_batch batch question_type i)
                                 (enumerate 1 batch_splits)
              in Inr (st\<lparr>p_responses := [],
                         p_batch_requests := batch_requests,
                         p_batch_jobs := batch_jobs,
                         p_batch_name := (if batch_jobs \<noteq> [] then Some (snd (hd batch_jobs))
                                          else p_batch_name st),
                         p_file_name := (if batch_jobs \<noteq> [] then Some (fst (hd batch_jobs))
                                         else p_file_name st)\<rparr>)))"

definition gemini_run_mcq_inference ::
  "deps \<Rightarrow> (gemini_request \<Rightarrow> nat) \<Rightarrow> (gemini_request list \<Rightarrow> string \<Rightarrow> nat \<Rightarrow> string \<times> string)
     \<Rightarrow> (string \<times> annotation_entry list) list \<Rightarrow> gemini_request provider \<Rightarrow> string
     \<Rightarrow> bool \<Rightarrow> bool \<Rightarrow> bool \<Rightarrow> error + gemini_request provider" where
  "gemini_run_mcq_inference d = batch_run_mcq_inference d (gemini_encode d)"

definition openai_run_mcq_inference ::
  "deps \<Rightarrow> string \<Rightarrow> (openai_request \<Rightarrow> nat) \<Rightarrow> (openai_request list \<Rightarrow> string \<Rightarrow> nat \<Rightarrow> string \<times> string)
     \<Rightarrow> (string \<times> annotation_entry list) list \<Rightarrow> openai_request provider \<Rightarrow> string
     \<Rightarrow> bool \<Rightarrow> bool \<Rightarrow> bool \<Rightarrow> error + openai_request provider" where
  "openai_run_mcq_inference d effort json_len create_batch data st =
     batch_run_mcq_inference d (openai_encode d (p_model st) effort) json_len create_batch
       data st"

text \<open>
  The cluster provider (cluster.py) answers each item at once. \<open>generate\<close> stands for
  the loader of the model family, the engine and the sampling: from the context items and
  \<^verbatim>\<open>include_images\<close> to the generated text. A model outside \<^verbatim>\<open>model_map\<close> is a
  \<^verbatim>\<open>KeyError\<close>. The constructor sets \<^verbatim>\<open>self.reasoning = False\<close>, so the branches on it are
  not taken.
\<close>

definition model_map_keys :: "string list" where
  "model_map_keys =
     [''llava-hf/llava-onevision-qwen2-7b-ov-hf'', ''llava-hf/llava-onevision-qwen2-72b-ov-hf'',
      ''Qwen/Qwen2.5-VL-72B-Instruct'', ''Qwen/Qwen2.5-VL-32B-Instruct'',
      ''Qwen/Qwen2.5-VL-7B-Instruct'', ''OpenGVLab/InternVL3-8B-Instruct'',
      ''OpenGVLab/InternVL3-38B-Instruct'', ''OpenGVLab/InternVL3-78B-Instruct'',
      ''OpenGVLab/InternVL3_5-8B'', ''OpenGVLab/InternVL3_5-38B'',
      ''internlm/internlm-xcomposer2d5-7b'', ''internlm/internlm-xcomposer2-4khd-7b'',
      ''zai-org/GLM-4.5V-FP8'', ''AIDC-AI/Ovis2-34B'', ''AIDC-AI/Ovis2-8B'',
      ''google/gemma-3-4b-it'', ''google/gemma-3-27b-it'', ''google/gemma-3-12b-it'']"

record cluster_provider =
  c_model :: string
  c_responses :: "response list"

definition cluster_run_inference ::
  "(generic_item list \<Rightarrow> bool \<Rightarrow> string) \<Rightarrow> cluster_provider \<Rightarrow> string \<Rightarrow> nat
     \<Rightarrow> generic_item list \<Rightarrow> string \<Rightarrow> bool \<Rightarrow> error + cluster_provider" where
  "cluster_run_inference generate st ident idx context_items correct_letter include_images =
     (if c_model st \<notin> set model_map_keys then Inl KeyError
      else
        (let full_text = generate context_items include_images;
             prediction = normalize_prediction full_text
         in Inr (st\<lparr>c_responses := c_responses st @
                   [\<lparr>r_id = ident, r_idx = IdxInt (int idx), r_question_type = None,
                     r_correct_letter = correct_letter, r_prediction = Some prediction,
                     r_is_correct = (prediction = correct_letter)\<rparr>]\<rparr>)))"

definition cluster_handle_one_annotation ::
  "deps \<Rightarrow> (generic_item list \<Rightarrow> bool \<Rightarrow> string) \<Rightarrow> cluster_provider \<Rightarrow> string \<Rightarrow> nat
     \<Rightarrow> annotation_entry \<Rightarrow> string \<Rightarrow> bool \<Rightarrow> bool \<Rightarrow> error + cluster_provider" where
  "cluster_handle_one_annotation d generate st ident idx annotation question_type whole_page
       whole_doc =
     (case build_default_context (d_after_question_prompt d)
             (d_get_list_of_context d annotation ident whole_page whole_doc)
             annotation question_type of
        Inl e \<Rightarrow> Inl e
      | Inr (context_items, q, answers, correct_letter) \<Rightarrow>
          cluster_run_inference generate st ident idx context_items correct_letter True)"

definition cluster_handle_one_annotation_without_context ::
  "deps \<Rightarrow> (generic_item list \<Rightarrow> bool \<Rightarrow> string) \<Rightarrow> cluster_provider \<Rightarrow> string \<Rightarrow> nat
     \<Rightarrow> annotation_entry \<Rightarrow> string \<Rightarrow> bool \<Rightarrow> bool \<Rightarrow> error + cluster_provider" where
  "cluster_handle_one_annotation_without_context d generate st ident idx annotation
       question_type whole_page whole_doc =
     (case build_without_context (d_after_question_prompt d) annotation question_type of
        Inl e \<Rightarrow> Inl e
      | Inr (context_items, q, answers, correct_letter) \<Rightarrow>
          cluster_run_inference generate st ident idx context_items correct_letter False)"

definition cluster_handle_one_part_pair_annotation ::
  "deps \<Rightarrow> (generic_item list \<Rightarrow> bool \<Rightarrow> string) \<Rightarrow> cluster_provider \<Rightarrow> string \<Rightarrow> nat
     \<Rightarrow> annotation_entry \<Rightarrow> string \<Rightarrow> bool \<Rightarrow> bool \<Rightarrow> error + cluster_provider" where
  "cluster_handle_one_part_pair_annotation d generate st ident idx annotation question_type
       whole_page whole_doc =
     (case build_part_pair_context (d_after_question_prompt d) (d_convert_image_to_base64 d)
             (d_env d) annotation ident of
        Inl e \<Rightarrow> Inl e
      | Inr (context_items, correct_letter) \<Rightarrow>
          if context_items = [] then Inr st
          else cluster_run_inference generate st ident idx context_items correct_letter True)"

fun cluster_run_loop ::
  "deps \<Rightarrow> (generic_item list \<Rightarrow> bool \<Rightarrow> string) \<Rightarrow> (string \<times> nat \<times> annotation_entry) list
     \<Rightarrow> string \<Rightarrow> bool \<Rightarrow> bool \<Rightarrow> bool \<Rightarrow> cluster_provider \<Rightarrow> error + cluster_provider" where
  "cluster_run_loop d generate [] question_type whole_page whole_doc without_context st =
     Inr st"
| "cluster_run_loop d generate (entry # entries) question_type whole_page whole_doc
       without_context st =
     (case entry of (k, idx, ann) \<Rightarrow>
        (case (if without_context
               then (if question_type = ''part_pair'' then Inl UnsupportedMode
                     else cluster_handle_one_annotation_without_context d generate st
                            k idx ann question_type whole_page whole_doc)
               else if question_type = ''part_pair''
               then cluster_handle_one_part_pair_annotation d generate st
                      k idx ann question_type whole_page whole_doc
               else cluster_handle_one_annotation d generate st
                      k idx ann question_type whole_page whole_doc) of
           Inl e \<Rightarrow> Inl e
         | Inr st' \<Rightarrow>
             cluster_run_loop d generate entries question_type whole_page whole_doc
               without_context st'))"

definition cluster_run_mcq_inference ::
  "deps \<Rightarrow> (generic_item list \<Rightarrow> bool \<Rightarrow> string) \<Rightarrow> (string \<times> annotation_entry list) list
     \<Rightarrow> cluster_provider \<Rightarrow> string \<Rightarrow> bool \<Rightarrow> bool \<Rightarrow> bool \<Rightarrow> file_system
     \<Rightarrow> (error + cluster_provider) \<times> file_system" where
  "cluster_run_mcq_inference d generate data st question_type whole_page whole_doc
       without_context fs =
     (case cluster_run_loop d generate (iter_annotations data question_type) question_type
             whole_page whole_doc without_context (st\<lparr>c_responses := []\<rparr>) of
        Inl e \<Rightarrow> (Inl e, fs)
      | Inr st' \<Rightarrow>
          (Inr st', snd (write_results (d_env d) (c_responses st') (c_model st')
                          question_type whole_page whole_doc without_context fs)))"

section \<open>Merging two binary runs (\<^verbatim>\<open>merge_binary_results\<close>, helpers.py)\<close>

text \<open>
  \<^verbatim>\<open>{(item["id"], item["idx"]): item for item in results2}\<close>: a later item overrides an
  earlier one with the same key.
\<close>

definition results2_lookup :: "response list \<Rightarrow> string \<times> idx_value \<Rightarrow> response option" where
  "results2_lookup results2 =
     map_of (rev (map (\<lambda>item. ((r_id item, r_idx item), item)) results2))"

text \<open>
  \<^verbatim>\<open>item1["prediction"] + item2["prediction"]\<close>: the predictions of a results file are
  strings or \<^verbatim>\<open>null\<close>, and \<^verbatim>\<open>+\<close> with \<^verbatim>\<open>None\<close> is a \<^verbatim>\<open>TypeError\<close>.
\<close>

definition py_add :: "string option \<Rightarrow> string option \<Rightarrow> error + string" where
  "py_add a b =
     (case a of
        None \<Rightarrow> Inl TypeError
      | Some x \<Rightarrow> (case b of None \<Rightarrow> Inl TypeError | Some y \<Rightarrow> Inr (x @ y)))"

fun merge_loop ::
  "(string \<times> idx_value \<Rightarrow> response option) \<Rightarrow> response list \<Rightarrow> response list
     \<Rightarrow> error + response list" where
  "merge_loop lookup [] merged_results = Inr merged_results"
| "merge_loop lookup (item1 # results1) merged_results =
     (case lookup (r_id item1, r_idx item1) of
        None \<Rightarrow> Inl MissingPair
      | Some item2 \<Rightarrow>
          (case py_add (r_prediction item1) (r_prediction item2) of
             Inl e \<Rightarrow> Inl e
           | Inr merged_prediction \<Rightarrow>
               (let correct_letter = r_correct_letter item1 @ r_correct_letter item2;
                    is_correct = (merged_prediction = correct_letter)
                in merge_loop lookup results1
                     (merged_results @
                        [\<lparr>r_id = r_id item1, r_idx = r_idx item1, r_question_type = None,
                          r_correct_letter = correct_letter,
                          r_prediction = Some merged_prediction,
                          r_is_correct = is_correct\<rparr>]))))"

text \<open>
  The whole function, with the files it opens and writes logged in order. \<open>abspath\<close> is
  \<^verbatim>\<open>os.path.abspath\<close>, which depends on the working directory of the process.
\<close>

datatype io_event = Opened string | Wrote string

definition merge_binary_results ::
  "(string \<Rightarrow> string) \<Rightarrow> file_system \<Rightarrow> string \<Rightarrow> string
     \<Rightarrow> (error + string) \<times> file_system \<times> io_event list" where
  "merge_binary_results abspath fs binary_file_1 binary_file_2 =
     (if dirname (abspath binary_file_1) \<noteq> dirname (abspath binary_file_2)
      then (Inl SameDirectoryError, fs, [])
      else
        (case fs binary_file_1 of
           None \<Rightarrow> (Inl (FileNotFoundError binary_file_1), fs, [])
         | Some results1 \<Rightarrow>
             (case fs binary_file_2 of
                None \<Rightarrow> (Inl (FileNotFoundError binary_file_2), fs, [Opened binary_file_1])
              | Some results2 \<Rightarrow>
                  (case merge_loop (results2_lookup results2) results1 [] of
                     Inl e \<Rightarrow> (Inl e, fs, [Opened binary_file_1, Opened binary_file_2])
                   | Inr merged_results \<Rightarrow>
                       (let output_path =
                              path_join (dirname binary_file_1) ''merged_results.json''
                        in (Inr output_path, fs(output_path \<mapsto> merged_results),
                            [Opened binary_file_1, Opened binary_file_2,
                             Wrote output_path]))))))"

section \<open>Auxiliary notions and example data\<close>

text \<open>
  Notions that only the statements below use, and concrete inputs on which the functions
  are run.
\<close>

text \<open>A closed chunk is acceptable when it is non-empty and within budget unless a singleton.\<close>

definition chunk_ok :: "('r \<Rightarrow> nat) \<Rightarrow> rat \<Rightarrow> 'r list \<Rightarrow> bool" where
  "chunk_ok json_len max_batch_size_mb chunk \<longleftrightarrow>
     chunk \<noteq> [] \<and>
     (estimate_total_size_mb json_len chunk > max_batch_size_mb \<longrightarrow> length chunk = 1)"




text \<open>An item and an annotation to run the functions on.\<close>

definition example_item :: mcq_item where
  "example_item =
     \<lparr>question = ''q'', correct = ''x'', incorrect = [''y'', ''z''],
      letters = [''C'', ''A'', ''B'']\<rparr>"

definition example_annotation :: annotation_entry where
  "example_annotation =
     \<lparr>inconsistency_parts = [], review_text = [], category = [], description = [],
      mcq_of = \<lparr>default_mcq = example_item, binary_consistent = example_item,
                binary_inconsistent = example_item, edit = example_item,
                default_natural = example_item, part_pair = PairItem example_item\<rparr>\<rparr>"

definition example_deps :: deps where
  "example_deps =
     \<lparr>d_env = \<lparr>IMAGE_DIR = None, SUPPL_IMAGE_DIR = None, RESULTS_DIR = None\<rparr>,
      d_after_question_prompt = ''end'', d_system_prompt = ''sys'',
      d_get_list_of_context = (\<lambda>annotation ident whole_page whole_doc. []),
      d_convert_image_to_base64 = (\<lambda>path. None)\<rparr>"







text \<open>The two one-item result lists of the merge example, and an item without prediction.\<close>

definition example_result1 :: response where
  "example_result1 =
     \<lparr>r_id = ''p1'', r_idx = IdxInt 0, r_question_type = None, r_correct_letter = ''A'',
      r_prediction = Some ''A'', r_is_correct = True\<rparr>"

definition example_result2 :: response where
  "example_result2 =
     \<lparr>r_id = ''p1'', r_idx = IdxInt 0, r_question_type = None, r_correct_letter = ''C'',
      r_prediction = Some ''B'', r_is_correct = False\<rparr>"


text \<open>
  A process with working directory \<^verbatim>\<open>/work\<close> (on paths that need no normalisation), and a
  file system holding the two result lists of the merge example.
\<close>

definition example_abspath :: "string \<Rightarrow> string" where
  "example_abspath p = (if p \<noteq> [] \<and> hd p = CHR ''/'' then p else ''/work/'' @ p)"

definition example_files :: file_system where
  "example_files =
     [''runs/r1.json'' \<mapsto> [example_result1], ''runs/r2.json'' \<mapsto> [example_result2]]"

section \<open>Properties of the chunker\<close>

lemma estimate_total_size_mb_Nil: "estimate_total_size_mb json_len [] = 0"
  by (simp add: estimate_total_size_mb_def)

lemma estimate_total_size_mb_snoc:
  "estimate_total_size_mb json_len (requests @ [request]) =
     estimate_total_size_mb json_len requests + estimate_request_size_mb json_len request"
  by (simp add: estimate_total_size_mb_def)

lemma estimate_total_size_mb_single:
  "estimate_total_size_mb json_len [request] = estimate_request_size_mb json_len request"
  by (simp add: estimate_total_size_mb_def)

lemma split_loop_concat:
  "split_loop json_len m requests batches cur sz = (batches', cur', sz') \<Longrightarrow>
     concat batches' @ cur' = concat batches @ cur @ requests"
proof (induction requests arbitrary: batches cur sz)
  case Nil
  then show ?case by simp
next
  case (Cons request requests)
  then show ?case
    by (cases "cur \<noteq> [] \<and> sz + estimate_request_size_mb json_len request > m")
      (auto simp: Let_def)
qed

lemma split_loop_invariant:
  assumes "split_loop json_len m requests batches cur sz = (batches', cur', sz')"
    and "\<forall>c \<in> set batches. chunk_ok json_len m c"
    and "sz = estimate_total_size_mb json_len cur"
    and "estimate_total_size_mb json_len cur > m \<longrightarrow> length cur \<le> 1"
  shows "(\<forall>c \<in> set batches'. chunk_ok json_len m c) \<and>
         (estimate_total_size_mb json_len cur' > m \<longrightarrow> length cur' \<le> 1)"
  using assms
proof (induction requests arbitrary: batches cur sz)
  case Nil
  then show ?case by simp
next
  case (Cons request requests)
  let ?s = "estimate_request_size_mb json_len request"
  show ?case
  proof (cases "cur \<noteq> [] \<and> sz + ?s > m")
    case True
    with Cons.prems(1)
    have run: "split_loop json_len m requests (batches @ [cur]) [request] ?s =
                 (batches', cur', sz')"
      by (simp add: Let_def)
    have closed: "chunk_ok json_len m cur"
      using True Cons.prems(4) by (cases cur) (auto simp: chunk_ok_def)
    show ?thesis
      by (rule Cons.IH [OF run])
        (use closed Cons.prems(2) in \<open>auto simp: estimate_total_size_mb_single\<close>)
  next
    case False
    with Cons.prems(1)
    have run: "split_loop json_len m requests batches (cur @ [request]) (sz + ?s) =
                 (batches', cur', sz')"
      by (auto simp: Let_def)
    have small: "estimate_total_size_mb json_len (cur @ [request]) > m
                   \<longrightarrow> length (cur @ [request]) \<le> 1"
      using False Cons.prems(3) by (auto simp: estimate_total_size_mb_snoc)
    show ?thesis
      by (rule Cons.IH [OF run])
        (use Cons.prems(2,3) small in \<open>auto simp: estimate_total_size_mb_snoc\<close>)
  qed
qed

lemma split_batch_requests_chunks:
  "concat (split_batch_requests json_len max_batch_size_mb requests) = requests \<and>
   (\<forall>chunk \<in> set (split_batch_requests json_len max_batch_size_mb requests).
      chunk_ok json_len max_batch_size_mb chunk)"
proof -
  obtain batches cur sz where
    run: "split_loop json_len max_batch_size_mb requests [] [] 0 = (batches, cur, sz)"
    by (cases "split_loop json_len max_batch_size_mb requests [] [] 0") auto
  have cat: "concat batches @ cur = requests"
    using split_loop_concat [OF run] by simp
  have inv: "(\<forall>c \<in> set batches. chunk_ok json_len max_batch_size_mb c) \<and>
             (estimate_total_size_mb json_len cur > max_batch_size_mb \<longrightarrow> length cur \<le> 1)"
    by (rule split_loop_invariant [OF run]) (simp_all add: estimate_total_size_mb_Nil)
  have last_ok: "cur \<noteq> [] \<Longrightarrow> chunk_ok json_len max_batch_size_mb cur"
    using inv by (cases cur) (auto simp: chunk_ok_def)
  show ?thesis
    using run cat inv last_ok
    by (auto simp: split_batch_requests_def)
qed

text \<open>
  C1. For every request list and every budget (positive or not), the chunks concatenate
  in order to the input list, so each request lies in exactly one chunk and both chunk
  order and order inside a chunk are the input order; no chunk is empty; and a chunk whose
  estimated size exceeds the budget holds exactly one request, which alone exceeds the
  budget.
\<close>

theorem split_batch_requests_partition:
  "concat (split_batch_requests json_len max_batch_size_mb requests) = requests \<and>
   (\<forall>chunk \<in> set (split_batch_requests json_len max_batch_size_mb requests).
      chunk \<noteq> [] \<and>
      (estimate_total_size_mb json_len chunk > max_batch_size_mb \<longrightarrow>
         length chunk = 1 \<and>
         estimate_request_size_mb json_len (hd chunk) > max_batch_size_mb))"
proof -
  have single: "estimate_request_size_mb json_len (hd chunk) > max_batch_size_mb"
    if "length chunk = 1" and "estimate_total_size_mb json_len chunk > max_batch_size_mb"
    for chunk :: "'a list"
  proof -
    from that(1) obtain request where "chunk = [request]"
      by (cases chunk) auto
    with that(2) show ?thesis
      by (simp add: estimate_total_size_mb_single)
  qed
  show ?thesis
    using split_batch_requests_chunks [of json_len max_batch_size_mb requests] single
    by (auto simp: chunk_ok_def)
qed

theorem split_batch_requests_partition_witness:
  "split_batch_requests (\<lambda>n. n * 1048576) 5 [2, 2, 9, 1::nat] = [[2, 2], [9], [1]] \<and>
   concat (split_batch_requests (\<lambda>n. n * 1048576) 5 [2, 2, 9, 1::nat]) = [2, 2, 9, 1] \<and>
   [9] \<in> set (split_batch_requests (\<lambda>n. n * 1048576) 5 [2, 2, 9, 1::nat]) \<and>
   estimate_total_size_mb (\<lambda>n. n * 1048576) [9::nat] > 5 \<and>
   length [9::nat] = 1 \<and>
   estimate_request_size_mb (\<lambda>n. n * 1048576) (hd [9::nat]) > 5"
  using split_batch_requests_partition [of "\<lambda>n. n * 1048576" 5 "[2, 2, 9, 1::nat]"]
  by (simp add: split_batch_requests_def estimate_request_size_mb_def
      estimate_total_size_mb_def)

section \<open>Properties of the string primitives\<close>

lemma py_split_not_Nil: "py_split sep s \<noteq> []"
  by (induction s) (auto split: list.splits)







lemma of_char_digit_char: "d < 10 \<Longrightarrow> of_char (digit_char d) = 48 + d"
  by (simp add: digit_char_def)


lemma digit_char_inj: "a < 10 \<Longrightarrow> b < 10 \<Longrightarrow> digit_char a = digit_char b \<Longrightarrow> a = b"
  by (metis of_char_digit_char add_left_cancel)


lemma str_nat_not_Nil: "str_nat n \<noteq> []"
  by (subst str_nat.simps) simp

lemma str_nat_inj: "str_nat n = str_nat m \<Longrightarrow> n = m"
proof (induction n arbitrary: m rule: str_nat.induct)
  case (1 n)
  show ?case
  proof (cases "n < 10")
    case True
    then have sn: "str_nat n = [digit_char n]" by (simp add: str_nat.simps [of n])
    have "m < 10"
    proof (rule ccontr)
      assume "\<not> m < 10"
      then have "str_nat m = str_nat (m div 10) @ [digit_char (m mod 10)]"
        by (simp add: str_nat.simps [of m])
      with sn "1.prems" str_nat_not_Nil [of "m div 10"] show False by simp
    qed
    then have "str_nat m = [digit_char m]" by (simp add: str_nat.simps [of m])
    with sn "1.prems" True \<open>m < 10\<close> show ?thesis by (auto dest: digit_char_inj)
  next
    case False
    then have sn: "str_nat n = str_nat (n div 10) @ [digit_char (n mod 10)]"
      by (simp add: str_nat.simps [of n])
    have "\<not> m < 10"
    proof
      assume "m < 10"
      then have "str_nat m = [digit_char m]" by (simp add: str_nat.simps [of m])
      with sn "1.prems" str_nat_not_Nil [of "n div 10"] show False by simp
    qed
    then have sm: "str_nat m = str_nat (m div 10) @ [digit_char (m mod 10)]"
      by (simp add: str_nat.simps [of m])
    from sn sm "1.prems" have a: "str_nat (n div 10) = str_nat (m div 10)"
      and b: "digit_char (n mod 10) = digit_char (m mod 10)" by simp_all
    from "1.IH" [OF False a] have "n div 10 = m div 10" .
    moreover from b have "n mod 10 = m mod 10" by (intro digit_char_inj) simp_all
    ultimately show ?thesis by (metis div_mult_mod_eq)
  qed
qed

section \<open>Properties of the correlation key\<close>




lemma digit_char_values:
  "digit_char 0 = CHR ''0''" "digit_char 1 = CHR ''1''" "digit_char 2 = CHR ''2''"
  "digit_char 3 = CHR ''3''" "digit_char 4 = CHR ''4''" "digit_char 5 = CHR ''5''"
  "digit_char 6 = CHR ''6''" "digit_char 7 = CHR ''7''" "digit_char 8 = CHR ''8''"
  "digit_char 9 = CHR ''9''"
  by (simp_all add: digit_char_def char_of_def bit_iff_odd)




section \<open>Properties of the reconciler\<close>












section \<open>Properties of the results file\<close>




section \<open>Properties of answer preparation\<close>

lemma map_of_rev_distinct: "distinct (map fst xs) \<Longrightarrow> map_of (rev xs) = map_of xs"
  by (rule map_of_inject_set [THEN iffD2]) (simp_all add: rev_map [symmetric])

lemma letter_to_answer_hd:
  assumes "distinct ls" and "ls \<noteq> []"
  shows "letter_to_answer ls (a # answers) (hd ls) = Some a"
proof -
  have "distinct (map fst (zip ls (a # answers)))"
    using assms(1) by (simp add: map_fst_zip_take)
  then have "letter_to_answer ls (a # answers) = map_of (zip ls (a # answers))"
    unfolding letter_to_answer_def by (rule map_of_rev_distinct)
  with assms(2) show ?thesis by (cases ls) simp_all
qed

lemma sorted_letters_props:
  "sorted (sorted_letters ls answers)"
  "distinct (sorted_letters ls answers)"
  "set (sorted_letters ls answers) = set (take (length answers) ls)"
  by (simp_all add: sorted_letters_def map_fst_zip_take min.commute take_all_iff
      min_def)

lemma letter_to_answer_dom:
  assumes "letter \<in> set (sorted_letters ls answers)"
  shows "\<exists>a. letter_to_answer ls answers letter = Some a"
proof -
  from assms have "letter \<in> fst ` set (rev (zip ls answers))"
    by (simp add: sorted_letters_def)
  then have "map_of (rev (zip ls answers)) letter \<noteq> None"
    by (simp only: map_of_eq_None_iff not_not)
  then show ?thesis by (simp add: letter_to_answer_def)
qed

lemma example_sorted_letters:
  "sorted_letters [''C'', ''A'', ''B''] [''x'', ''y'', ''z''] = [''A'', ''B'', ''C'']"
  by (simp add: sorted_letters_def)

lemma example_letter_to_answer:
  "letter_to_answer [''C'', ''A'', ''B''] [''x'', ''y'', ''z''] ''A'' = Some ''y''"
  "letter_to_answer [''C'', ''A'', ''B''] [''x'', ''y'', ''z''] ''B'' = Some ''z''"
  "letter_to_answer [''C'', ''A'', ''B''] [''x'', ''y'', ''z''] ''C'' = Some ''x''"
  by (simp_all add: letter_to_answer_def)

text \<open>
  C5 (amended). For every MCQ item with at least one letter, in every mode that goes
  through \<^verbatim>\<open>prepare_answers\<close> (default, whole page, whole document, without context), the
  options are shown in the lexicographic order of the distinct declared letters that got
  an answer, each option being the answer its letter maps to (prefixed by the letter for
  binary question types), and the correct letter returned is always \<^verbatim>\<open>letters[0]\<close>. When
  the declared letters are distinct, that letter is among the sorted letters and maps to
  the correct answer text. The context builder returns the same options and letter.
\<close>

theorem prepare_answers_correct_letter:
  assumes "letters m \<noteq> []"
  shows
    "\<exists>opts. prepare_answers m question_type = Inr (opts, hd (letters m)) \<and>
       opts = map (\<lambda>letter.
                (if py_contains ''binary'' question_type then letter @ '') '' else [])
                @ the (letter_to_answer (letters m) (correct m # incorrect m) letter))
              (sorted_letters (letters m) (correct m # incorrect m)) \<and>
       sorted (sorted_letters (letters m) (correct m # incorrect m)) \<and>
       distinct (sorted_letters (letters m) (correct m # incorrect m)) \<and>
       set (sorted_letters (letters m) (correct m # incorrect m)) =
         set (take (Suc (length (incorrect m))) (letters m)) \<and>
       (\<forall>letter \<in> set (sorted_letters (letters m) (correct m # incorrect m)).
          letter_to_answer (letters m) (correct m # incorrect m) letter \<noteq> None) \<and>
       (distinct (letters m) \<longrightarrow>
          hd (letters m) \<in> set (sorted_letters (letters m) (correct m # incorrect m)) \<and>
          letter_to_answer (letters m) (correct m # incorrect m) (hd (letters m)) =
            Some (correct m)) \<and>
       (\<forall>annotation. getattr_mcq (mcq_of annotation) question_type = Inr (Some m) \<longrightarrow>
          build_default_context after_question_prompt parts annotation question_type =
            Inr (map part_to_item parts @ [TextItem (question m)] @ map TextItem opts
                   @ [TextItem after_question_prompt],
                 question m, opts, hd (letters m)))"
proof -
  let ?answers = "correct m # incorrect m"
  let ?opts = "map (\<lambda>letter.
                (if py_contains ''binary'' question_type then letter @ '') '' else [])
                @ the (letter_to_answer (letters m) ?answers letter))
              (sorted_letters (letters m) ?answers)"
  from assms obtain l ls where ls: "letters m = l # ls" by (cases "letters m") auto
  have pa: "prepare_answers m question_type = Inr (?opts, hd (letters m))"
    by (simp add: prepare_answers_def Let_def ls)
  have dom: "\<forall>letter \<in> set (sorted_letters (letters m) ?answers).
          letter_to_answer (letters m) ?answers letter \<noteq> None"
    using letter_to_answer_dom by fastforce
  have hd_in: "hd (letters m) \<in> set (sorted_letters (letters m) ?answers)"
    by (simp add: sorted_letters_props ls)
  have ctx: "\<forall>annotation. getattr_mcq (mcq_of annotation) question_type = Inr (Some m) \<longrightarrow>
          build_default_context after_question_prompt parts annotation question_type =
            Inr (map part_to_item parts @ [TextItem (question m)] @ map TextItem ?opts
                   @ [TextItem after_question_prompt],
                 question m, ?opts, hd (letters m))"
    by (simp add: build_default_context_def pa)
  from pa dom hd_in ctx show ?thesis
    using letter_to_answer_hd [OF _ assms, of "correct m" "incorrect m"]
    by (intro exI [of _ ?opts]) (simp add: sorted_letters_props)
qed

theorem prepare_answers_correct_letter_witness:
  "letters example_item \<noteq> [] \<and> distinct (letters example_item) \<and>
   getattr_mcq (mcq_of example_annotation) ''default'' = Inr (Some example_item) \<and>
   ''C'' \<in> set (sorted_letters (letters example_item)
                  (correct example_item # incorrect example_item)) \<and>
   prepare_answers example_item ''default'' = Inr ([''y'', ''z'', ''x''], ''C'') \<and>
   letter_to_answer (letters example_item) (correct example_item # incorrect example_item)
     ''C'' = Some ''x'' \<and>
   build_default_context ''end'' [] example_annotation ''default'' =
     Inr ([TextItem ''q'', TextItem ''y'', TextItem ''z'', TextItem ''x'', TextItem ''end''],
          ''q'', [''y'', ''z'', ''x''], ''C'')"
proof -
  have ne: "letters example_item \<noteq> []" by (simp add: example_item_def)
  have di: "distinct (letters example_item)" by (simp add: example_item_def)
  have ga: "getattr_mcq (mcq_of example_annotation) ''default'' = Inr (Some example_item)"
    by (simp add: getattr_mcq_def example_annotation_def)
  have nb: "\<not> py_contains ''binary'' ''default''"
    by (simp add: py_contains_def sublist_code)
  from prepare_answers_correct_letter [OF ne, of "''default''" "''end''" "[]"]
  obtain opts where
    pa: "prepare_answers example_item ''default'' = Inr (opts, hd (letters example_item))"
    and opts: "opts = map (\<lambda>letter.
                (if py_contains ''binary'' ''default'' then letter @ '') '' else [])
                @ the (letter_to_answer (letters example_item)
                         (correct example_item # incorrect example_item) letter))
              (sorted_letters (letters example_item)
                 (correct example_item # incorrect example_item))"
    and hd_ok: "distinct (letters example_item) \<longrightarrow>
          hd (letters example_item) \<in> set (sorted_letters (letters example_item)
             (correct example_item # incorrect example_item)) \<and>
          letter_to_answer (letters example_item)
            (correct example_item # incorrect example_item) (hd (letters example_item)) =
            Some (correct example_item)"
    and ctx: "\<forall>annotation. getattr_mcq (mcq_of annotation) ''default'' =
            Inr (Some example_item) \<longrightarrow>
          build_default_context ''end'' [] annotation ''default'' =
            Inr (map part_to_item [] @ [TextItem (question example_item)]
                   @ map TextItem opts @ [TextItem ''end''],
                 question example_item, opts, hd (letters example_item))"
    by blast
  from opts have o: "opts = [''y'', ''z'', ''x'']"
    by (simp add: nb example_item_def example_sorted_letters example_letter_to_answer)
  from hd_ok di have h: "''C'' \<in> set (sorted_letters (letters example_item)
                  (correct example_item # incorrect example_item))"
    and l: "letter_to_answer (letters example_item)
              (correct example_item # incorrect example_item) ''C'' = Some ''x''"
    by (simp_all add: example_item_def)
  from pa o have p: "prepare_answers example_item ''default'' = Inr ([''y'', ''z'', ''x''], ''C'')"
    by (simp add: example_item_def)
  from ctx ga o have c: "build_default_context ''end'' [] example_annotation ''default'' =
     Inr ([TextItem ''q'', TextItem ''y'', TextItem ''z'', TextItem ''x'', TextItem ''end''],
          ''q'', [''y'', ''z'', ''x''], ''C'')"
    by (simp add: example_item_def)
  from ne di ga h p l c show ?thesis by (intro conjI)
qed

text \<open>
  The letter returned is \<^verbatim>\<open>letters[0]\<close> whatever the item; with a repeated letter it is not
  even a letter of the correct text.
\<close>

theorem prepare_answers_correct_letter_counterexample:
  "\<not> (\<exists>m question_type opts correct_letter.
        prepare_answers m question_type = Inr (opts, correct_letter) \<and>
        correct_letter \<noteq> hd (letters m)) \<and>
   prepare_answers \<lparr>question = ''q'', correct = ''x'', incorrect = [''y''],
                    letters = [''A'', ''A'']\<rparr> ''default'' = Inr ([''y''], ''A'') \<and>
   letter_to_answer [''A'', ''A''] [''x'', ''y''] ''A'' = Some ''y''"
proof -
  have "\<not> (\<exists>m question_type opts correct_letter.
        prepare_answers m question_type = Inr (opts, correct_letter) \<and>
        correct_letter \<noteq> hd (letters m))"
    by (auto simp: prepare_answers_def Let_def split: list.splits)
  moreover have "prepare_answers \<lparr>question = ''q'', correct = ''x'', incorrect = [''y''],
                    letters = [''A'', ''A'']\<rparr> ''default'' = Inr ([''y''], ''A'')"
    by (simp add: prepare_answers_def Let_def sorted_letters_def letter_to_answer_def
        py_contains_def sublist_code)
  moreover have "letter_to_answer [''A'', ''A''] [''x'', ''y''] ''A'' = Some ''y''"
    by (simp add: letter_to_answer_def)
  ultimately show ?thesis by (intro conjI)
qed

section \<open>Properties of the part-pair guard and of the inference loops\<close>





lemma example_without_context:
  "build_without_context ''end'' example_annotation ''part_pair'' =
     Inr ([TextItem ''q'', TextItem ''y'', TextItem ''z'', TextItem ''x'', TextItem ''end''],
          ''q'', [''y'', ''z'', ''x''], ''C'')"
  by (simp add: build_without_context_def getattr_mcq_def example_annotation_def
      prepare_answers_def example_item_def example_sorted_letters example_letter_to_answer
      py_contains_def sublist_code Let_def)

lemma example_custom_id:
  "custom_id_of ''p1'' 0 ''part_pair'' ''C'' False False True =
     ''p1_0_part-pair_C_False_False_True''"
  by (simp add: custom_id_of_def str_nat.simps digit_char_values str_bool_def py_replace_def)

lemma example_iter_annotations:
  "iter_annotations [(''p1'', [example_annotation])] ''part_pair'' =
     [(''p1'', 0, example_annotation)]"
  by (simp add: iter_annotations_def example_annotation_def)

lemma example_batch_run_loop:
  "batch_run_loop example_deps encode [(''p1'', 0, example_annotation)] ''part_pair''
     False False True batch_requests =
   Inr (batch_requests @
          [encode ''p1_0_part-pair_C_False_False_True''
             [TextItem ''q'', TextItem ''y'', TextItem ''z'', TextItem ''x'',
              TextItem ''end'']])"
proof -
  have aqp: "d_after_question_prompt example_deps = ''end''"
    by (simp add: example_deps_def)
  show ?thesis
    by (simp add: batch_handle_one_annotation_without_context_def aqp
        example_without_context example_custom_id)
qed

lemma getattr_mcq_not_unsupported: "getattr_mcq m qt \<noteq> Inl UnsupportedMode"
  by (simp add: getattr_mcq_def)

lemma prepare_answers_not_unsupported: "prepare_answers m qt \<noteq> Inl UnsupportedMode"
  by (simp add: prepare_answers_def Let_def split: list.splits)

lemma build_without_context_not_unsupported:
  "build_without_context aqp annotation qt \<noteq> Inl UnsupportedMode"
  using getattr_mcq_not_unsupported [of "mcq_of annotation" qt]
    prepare_answers_not_unsupported [of _ qt]
  by (auto simp: build_without_context_def split: sum.splits option.splits prod.splits)

lemma build_default_context_not_unsupported:
  "build_default_context aqp parts annotation qt \<noteq> Inl UnsupportedMode"
  using getattr_mcq_not_unsupported [of "mcq_of annotation" qt]
    prepare_answers_not_unsupported [of _ qt]
  by (auto simp: build_default_context_def split: sum.splits option.splits prod.splits)

lemma build_part_pair_context_not_unsupported:
  "build_part_pair_context aqp convert env annotation ident \<noteq> Inl UnsupportedMode"
  by (simp add: build_part_pair_context_def py_index_def Let_def
      split: part_pair_value.splits)

lemma batch_handlers_not_unsupported:
  "batch_handle_one_annotation_without_context d encode reqs k idx ann qt wp wd wc
     \<noteq> Inl UnsupportedMode"
  "batch_handle_one_annotation d encode reqs k idx ann qt wp wd wc \<noteq> Inl UnsupportedMode"
  "batch_handle_one_part_pair_annotation d encode reqs k idx ann qt wp wd wc
     \<noteq> Inl UnsupportedMode"
  using build_without_context_not_unsupported [of "d_after_question_prompt d" ann qt]
    build_default_context_not_unsupported
      [of "d_after_question_prompt d" "d_get_list_of_context d ann k wp wd" ann qt]
    build_part_pair_context_not_unsupported
      [of "d_after_question_prompt d" "d_convert_image_to_base64 d" "d_env d" ann k]
  by (auto simp: batch_handle_one_annotation_without_context_def
      batch_handle_one_annotation_def batch_handle_one_part_pair_annotation_def
      split: sum.splits prod.splits)

text \<open>No run of the dispatch loop of a batch provider ends in the unsupported-mode error.\<close>

lemma batch_run_loop_not_unsupported:
  "batch_run_loop d encode entries qt wp wd wc batch_requests \<noteq> Inl UnsupportedMode"
proof (induction entries arbitrary: batch_requests)
  case Nil
  show ?case by simp
next
  case (Cons entry entries)
  obtain k idx ann where entry: "entry = (k, idx, ann)" by (cases entry) auto
  show ?case
    using Cons.IH batch_handlers_not_unsupported [of d encode batch_requests k idx ann qt wp wd wc]
    by (auto simp: entry split: sum.splits)
qed

text \<open>
  C6 (the code at the failing input). With one annotation that has a part-pair MCQ, a run
  for question type \<^verbatim>\<open>part_pair\<close> with \<^verbatim>\<open>without_context=True\<close> succeeds in the Gemini and in
  the OpenAI provider and appends one request built from the question and the answer
  texts alone; only the cluster provider stops with the unsupported-mode error.
\<close>

theorem batch_part_pair_without_context_builds_request:
  "(\<exists>st'. gemini_run_mcq_inference example_deps gemini_json_len gemini_create_batch
            [(''p1'', [example_annotation])] gemini_st ''part_pair'' whole_page whole_doc True =
            Inr st' \<and>
          p_batch_requests st' = p_batch_requests gemini_st @
            [\<lparr>gq_key = ''p1_0_part-pair_C_False_False_True'',
              gq_parts = [GeminiText ''q'', GeminiText ''y'', GeminiText ''z'',
                          GeminiText ''x'', GeminiText ''end''],
              gq_system_instruction = ''sys''\<rparr>]) \<and>
   (\<exists>st'. openai_run_mcq_inference example_deps effort openai_json_len openai_create_batch
            [(''p1'', [example_annotation])] openai_st ''part_pair'' whole_page whole_doc True =
            Inr st' \<and>
          p_batch_requests st' = p_batch_requests openai_st @
            [\<lparr>oq_custom_id = ''p1_0_part-pair_C_False_False_True'',
              oq_model = p_model openai_st, oq_system = ''sys'',
              oq_user_content = [InputText ''q'', InputText ''y'', InputText ''z'',
                                 InputText ''x'', InputText ''end''],
              oq_reasoning_effort = effort\<rparr>]) \<and>
   fst (cluster_run_mcq_inference example_deps generate [(''p1'', [example_annotation])]
          cluster_st ''part_pair'' whole_page whole_doc True fs) = Inl UnsupportedMode"
proof -
  have sys: "d_system_prompt example_deps = ''sys''"
    by (simp add: example_deps_def)
  have g: "\<exists>st'. gemini_run_mcq_inference example_deps gemini_json_len gemini_create_batch
            [(''p1'', [example_annotation])] gemini_st ''part_pair'' whole_page whole_doc True =
            Inr st' \<and>
          p_batch_requests st' = p_batch_requests gemini_st @
            [\<lparr>gq_key = ''p1_0_part-pair_C_False_False_True'',
              gq_parts = [GeminiText ''q'', GeminiText ''y'', GeminiText ''z'',
                          GeminiText ''x'', GeminiText ''end''],
              gq_system_instruction = ''sys''\<rparr>]"
    by (simp add: gemini_run_mcq_inference_def batch_run_mcq_inference_def
        example_iter_annotations example_batch_run_loop gemini_encode_def sys Let_def
        del: batch_run_loop.simps)
  have o: "\<exists>st'. openai_run_mcq_inference example_deps effort openai_json_len
            openai_create_batch
            [(''p1'', [example_annotation])] openai_st ''part_pair'' whole_page whole_doc True =
            Inr st' \<and>
          p_batch_requests st' = p_batch_requests openai_st @
            [\<lparr>oq_custom_id = ''p1_0_part-pair_C_False_False_True'',
              oq_model = p_model openai_st, oq_system = ''sys'',
              oq_user_content = [InputText ''q'', InputText ''y'', InputText ''z'',
                                 InputText ''x'', InputText ''end''],
              oq_reasoning_effort = effort\<rparr>]"
    by (simp add: openai_run_mcq_inference_def batch_run_mcq_inference_def
        example_iter_annotations example_batch_run_loop openai_encode_def sys Let_def
        del: batch_run_loop.simps)
  have c: "fst (cluster_run_mcq_inference example_deps generate
          [(''p1'', [example_annotation])] cluster_st ''part_pair'' whole_page whole_doc True
          fs) = Inl UnsupportedMode"
    by (simp add: cluster_run_mcq_inference_def example_iter_annotations)
  from g o c show ?thesis by (intro conjI)
qed

section \<open>Properties of fetching batch results\<close>







section \<open>Properties of the binary merge\<close>








section \<open>Properties of the merge on files\<close>

lemma dropWhile_eq_Nil_all: "dropWhile (\<lambda>c. c = x) xs = [] \<Longrightarrow> xs = replicate (length xs) x"
  by (induction xs) (auto split: if_splits)

lemma rev_eq_replicate: "rev xs = replicate n x \<longleftrightarrow> xs = replicate n x"
  by (metis rev_replicate rev_rev_ident)

lemma dirname_shape:
  "dirname p = [] \<or> dirname p = replicate (length (dirname p)) CHR ''/'' \<or>
   last (dirname p) \<noteq> CHR ''/''"
proof -
  let ?t = "dropWhile (\<lambda>c. c \<noteq> CHR ''/'') (rev p)"
  show ?thesis
  proof (cases "rev ?t \<noteq> [] \<and> rev ?t \<noteq> replicate (length (rev ?t)) CHR ''/''")
    case True
    then have d: "dirname p = rev (dropWhile (\<lambda>c. c = CHR ''/'') ?t)"
      by (simp only: dirname_def Let_def if_True rstrip_slash_def rev_rev_ident simp_thms)
    let ?r = "dropWhile (\<lambda>c. c = CHR ''/'') ?t"
    have "?r \<noteq> []"
    proof
      assume "?r = []"
      then have "?t = replicate (length ?t) CHR ''/''"
        by (rule dropWhile_eq_Nil_all)
      then have "rev ?t = replicate (length (rev ?t)) CHR ''/''"
        by (metis rev_replicate length_rev)
      with True show False by blast
    qed
    then have "hd ?r \<noteq> CHR ''/''" by (rule hd_dropWhile)
    with \<open>?r \<noteq> []\<close> have "last (rev ?r) \<noteq> CHR ''/''"
      by (simp add: last_rev)
    then show ?thesis unfolding d by blast
  next
    case False
    then have "dirname p = rev ?t"
      by (simp only: dirname_def Let_def if_False simp_thms)
    with False show ?thesis by auto
  qed
qed

lemma dirname_no_slash: "CHR ''/'' \<notin> set name \<Longrightarrow> dirname name = []"
proof -
  assume "CHR ''/'' \<notin> set name"
  then have "dropWhile (\<lambda>c. c \<noteq> CHR ''/'') (rev name) = []"
    by (auto simp: dropWhile_eq_Nil_conv)
  then show ?thesis by (simp add: dirname_def)
qed

lemma dirname_path_join:
  assumes "CHR ''/'' \<notin> set name" and "name \<noteq> []"
    and shape: "d = [] \<or> d = replicate (length d) CHR ''/'' \<or> last d \<noteq> CHR ''/''"
  shows "dirname (path_join d name) = d"
proof -
  from assms(1,2) have hd_name: "hd name \<noteq> CHR ''/''"
    by (cases name) auto
  have drop_name: "dropWhile (\<lambda>c. c \<noteq> CHR ''/'') (rev name @ ys) =
                     dropWhile (\<lambda>c. c \<noteq> CHR ''/'') ys" for ys
    using assms(1) by (simp add: dropWhile_append)
  consider (empty) "d = []"
    | (root) "d \<noteq> []" "d = replicate (length d) CHR ''/''"
    | (plain) "d \<noteq> []" "last d \<noteq> CHR ''/''"
    using shape by blast
  then show ?thesis
  proof cases
    case empty
    then show ?thesis
      using hd_name assms(2) by (simp add: path_join_def dirname_no_slash [OF assms(1)])
  next
    case root
    then have l: "last d = CHR ''/''"
      by (metis last_replicate length_0_conv)
    then have pj: "path_join d name = d @ name"
      using hd_name assms(2) by (simp add: path_join_def)
    from root l have "hd (rev d) = CHR ''/''"
      by (simp add: hd_rev)
    with root(1) have "dropWhile (\<lambda>c. c \<noteq> CHR ''/'') (rev d) = rev d"
      by (cases "rev d") auto
    then have "rev (dropWhile (\<lambda>c. c \<noteq> CHR ''/'') (rev (d @ name))) = d"
      by (simp add: drop_name)
    with root show ?thesis
      unfolding pj dirname_def Let_def by simp
  next
    case plain
    then have pj: "path_join d name = d @ ''/'' @ name"
      using hd_name assms(2) by (simp add: path_join_def)
    have head: "rev (dropWhile (\<lambda>c. c \<noteq> CHR ''/'') (rev (d @ ''/'' @ name))) = d @ ''/''"
      by (simp add: drop_name)
    have not_root: "d @ ''/'' \<noteq> replicate (length (d @ ''/'')) CHR ''/''"
    proof
      assume "d @ ''/'' = replicate (length (d @ ''/'')) CHR ''/''"
      then have "set (d @ ''/'') \<subseteq> {CHR ''/''}"
        by (metis set_replicate_conv_if subset_refl empty_subsetI)
      with plain show False
        by (metis last_in_set Un_iff set_append singletonD subsetD)
    qed
    from plain have "hd (rev d) \<noteq> CHR ''/''"
      by (simp add: hd_rev)
    with plain(1) have "dropWhile (\<lambda>c. c = CHR ''/'') (rev d) = rev d"
      by (cases "rev d") auto
    then have strip: "rstrip_slash (d @ ''/'') = d"
      by (simp add: rstrip_slash_def)
    show ?thesis
      unfolding pj dirname_def Let_def head using not_root strip by simp
  qed
qed

text \<open>
  C10. If the directories of the two absolute paths differ, the merge raises before any
  file is opened and leaves the file system as it was. Whenever it succeeds, it has opened
  the two inputs and then written the merged records to \<^verbatim>\<open>merged_results.json\<close> joined to
  the directory part of the first path as given, a path whose directory part is again
  that of the first path; nothing else is written.
\<close>

theorem merge_binary_results_directories:
  "(dirname (abspath binary_file_1) \<noteq> dirname (abspath binary_file_2) \<longrightarrow>
      merge_binary_results abspath fs binary_file_1 binary_file_2 =
        (Inl SameDirectoryError, fs, [])) \<and>
   (\<forall>output_path.
      fst (merge_binary_results abspath fs binary_file_1 binary_file_2) = Inr output_path \<longrightarrow>
      output_path = path_join (dirname binary_file_1) ''merged_results.json'' \<and>
      dirname output_path = dirname binary_file_1 \<and>
      dirname (abspath binary_file_1) = dirname (abspath binary_file_2) \<and>
      (\<exists>results1 results2 merged.
         fs binary_file_1 = Some results1 \<and> fs binary_file_2 = Some results2 \<and>
         merge_loop (results2_lookup results2) results1 [] = Inr merged \<and>
         fst (snd (merge_binary_results abspath fs binary_file_1 binary_file_2)) =
           fs(output_path \<mapsto> merged)) \<and>
      snd (snd (merge_binary_results abspath fs binary_file_1 binary_file_2)) =
        [Opened binary_file_1, Opened binary_file_2, Wrote output_path])"
proof (intro conjI allI impI)
  assume "dirname (abspath binary_file_1) \<noteq> dirname (abspath binary_file_2)"
  then show "merge_binary_results abspath fs binary_file_1 binary_file_2 =
        (Inl SameDirectoryError, fs, [])"
    by (simp add: merge_binary_results_def)
next
  fix output_path
  assume ok: "fst (merge_binary_results abspath fs binary_file_1 binary_file_2) =
                Inr output_path"
  let ?out = "path_join (dirname binary_file_1) ''merged_results.json''"
  from ok have same: "dirname (abspath binary_file_1) = dirname (abspath binary_file_2)"
    by (auto simp: merge_binary_results_def split: if_splits)
  from ok same obtain results1 where r1: "fs binary_file_1 = Some results1"
    by (cases "fs binary_file_1") (auto simp: merge_binary_results_def)
  from ok same r1 obtain results2 where r2: "fs binary_file_2 = Some results2"
    by (cases "fs binary_file_2") (auto simp: merge_binary_results_def)
  from ok same r1 r2 obtain merged where
    m: "merge_loop (results2_lookup results2) results1 [] = Inr merged"
    by (cases "merge_loop (results2_lookup results2) results1 []")
      (auto simp: merge_binary_results_def)
  have run: "merge_binary_results abspath fs binary_file_1 binary_file_2 =
     (Inr ?out, fs(?out \<mapsto> merged), [Opened binary_file_1, Opened binary_file_2, Wrote ?out])"
    by (simp add: merge_binary_results_def same r1 r2 m Let_def)
  with ok show out: "output_path = ?out" by simp
  show "dirname (abspath binary_file_1) = dirname (abspath binary_file_2)" by (rule same)
  have "dirname ?out = dirname binary_file_1"
    by (rule dirname_path_join) (simp_all add: dirname_shape)
  with out show "dirname output_path = dirname binary_file_1" by simp
  from run out r1 r2 m
  show "\<exists>results1 results2 merged.
         fs binary_file_1 = Some results1 \<and> fs binary_file_2 = Some results2 \<and>
         merge_loop (results2_lookup results2) results1 [] = Inr merged \<and>
         fst (snd (merge_binary_results abspath fs binary_file_1 binary_file_2)) =
           fs(output_path \<mapsto> merged)"
    by simp
  from run out
  show "snd (snd (merge_binary_results abspath fs binary_file_1 binary_file_2)) =
        [Opened binary_file_1, Opened binary_file_2, Wrote output_path]"
    by simp
qed

theorem merge_binary_results_directories_witness:
  "dirname (example_abspath ''runs/a/r1.json'') \<noteq> dirname (example_abspath ''runs/b/r2.json'') \<and>
   merge_binary_results example_abspath example_files ''runs/a/r1.json'' ''runs/b/r2.json'' =
     (Inl SameDirectoryError, example_files, []) \<and>
   fst (merge_binary_results example_abspath example_files ''runs/r1.json'' ''runs/r2.json'') =
     Inr ''runs/merged_results.json'' \<and>
   dirname ''runs/merged_results.json'' = dirname ''runs/r1.json'' \<and>
   snd (snd (merge_binary_results example_abspath example_files ''runs/r1.json''
               ''runs/r2.json'')) =
     [Opened ''runs/r1.json'', Opened ''runs/r2.json'', Wrote ''runs/merged_results.json'']"
proof -
  have differ: "dirname (example_abspath ''runs/a/r1.json'') \<noteq>
                dirname (example_abspath ''runs/b/r2.json'')"
    by (simp add: example_abspath_def dirname_def rstrip_slash_def Let_def)
  from merge_binary_results_directories
    [of example_abspath "''runs/a/r1.json''" "''runs/b/r2.json''" example_files,
     THEN conjunct1, THEN mp, OF differ]
  have refused: "merge_binary_results example_abspath example_files ''runs/a/r1.json''
      ''runs/b/r2.json'' = (Inl SameDirectoryError, example_files, [])" .
  have same: "dirname (example_abspath ''runs/r1.json'') = dirname (example_abspath ''runs/r2.json'')"
    by (simp add: example_abspath_def dirname_def rstrip_slash_def Let_def)
  have d1: "dirname ''runs/r1.json'' = ''runs''"
    by (simp add: dirname_def rstrip_slash_def Let_def)
  have f1: "example_files ''runs/r1.json'' = Some [example_result1]"
    by (simp add: example_files_def)
  have f2: "example_files ''runs/r2.json'' = Some [example_result2]"
    by (simp add: example_files_def)
  have m: "merge_loop (results2_lookup [example_result2]) [example_result1] [] =
     Inr [\<lparr>r_id = ''p1'', r_idx = IdxInt 0, r_question_type = None,
           r_correct_letter = ''AC'', r_prediction = Some ''AB'', r_is_correct = False\<rparr>]"
    by (simp add: results2_lookup_def example_result1_def example_result2_def py_add_def)
  have ok: "fst (merge_binary_results example_abspath example_files ''runs/r1.json''
      ''runs/r2.json'') = Inr ''runs/merged_results.json''"
    by (simp add: merge_binary_results_def same f1 f2 m d1 path_join_def Let_def
        del: merge_loop.simps)
  from merge_binary_results_directories
    [of example_abspath "''runs/r1.json''" "''runs/r2.json''" example_files,
     THEN conjunct2, rule_format, OF ok]
  have d: "dirname ''runs/merged_results.json'' = dirname ''runs/r1.json''"
    and l: "snd (snd (merge_binary_results example_abspath example_files ''runs/r1.json''
               ''runs/r2.json'')) =
     [Opened ''runs/r1.json'', Opened ''runs/r2.json'', Wrote ''runs/merged_results.json'']"
    by blast+
  from differ refused ok d l show ?thesis by (intro conjI)
qed

end
